theory Spec2Isabelle
  imports Complex_Main "HOL-Library.Word"
begin

section \<open>Errors and arrays\<close>

text \<open>
  The exceptions the module can raise.  \<open>ValueError\<close> is what every explicit
  \<open>raise\<close> of the index mapper uses (and what NumPy raises when two shapes cannot be
  broadcast); \<open>IndexError\<close> is what NumPy raises for an index outside an array;
  \<open>RuntimeError\<close> is raised by one branch of the entry point.
\<close>

datatype error = ValueError | IndexError | RuntimeError

text \<open>
  An array of at most one dimension (a scalar is an array with one element), with its
  dtype: NumPy's default integer dtype \<open>int64\<close> (two's complement, arithmetic wraps
  around) or a floating dtype.
\<close>

type_synonym int64 = "64 word"

datatype ndarray = IntArr "int64 list" | FloatArr "real list"

text \<open>
  Indexing an array with one integer: negative indices count from the end, anything
  outside \<open>-len .. len - 1\<close> raises \<open>IndexError\<close> (here: \<open>None\<close>).
\<close>

definition np_index :: "'a list \<Rightarrow> int \<Rightarrow> 'a option" where
  "np_index xs i =
     (let len = int (length xs); k = (if i < 0 then i + len else i)
      in if 0 \<le> k \<and> k < len then Some (xs ! nat k) else None)"

text \<open>Indexing with an integer array: every index is looked up, one bad index fails all.\<close>

fun take_indices :: "'a list \<Rightarrow> int list \<Rightarrow> 'a list option" where
  "take_indices xs [] = Some []"
| "take_indices xs (i # is) =
     (case np_index xs i of
        None \<Rightarrow> None
      | Some v \<Rightarrow> (case take_indices xs is of None \<Rightarrow> None | Some vs \<Rightarrow> Some (v # vs)))"

section \<open>The index tables\<close>

definition noll_mapping :: "int64 list" where
  "noll_mapping =
    [1, 3, 2, 5, 4, 6, 9, 7, 8, 10, 15, 13, 11, 12, 14, 21, 19, 17, 16,
     18, 20, 27, 25, 23, 22, 24, 26, 28, 35, 33, 31, 29, 30, 32, 34,
     36, 45, 43, 41, 39, 37, 38, 40, 42, 44, 55, 53, 51, 49, 47, 46,
     48, 50, 52, 54, 65, 63, 61, 59, 57, 56, 58, 60, 62, 64, 66, 77,
     75, 73, 71, 69, 67, 68, 70, 72, 74, 76, 78, 91, 89, 87, 85, 83,
     81, 79, 80, 82, 84, 86, 88, 90, 105, 103, 101, 99, 97, 95, 93,
     92, 94, 96, 98, 100, 102, 104, 119, 117, 115, 113, 111, 109,
     107, 106, 108, 110, 112, 114, 116, 118, 120]"

text \<open>\<open>argsort\<close>: the indices that sort the array, by the signed value of each entry.\<close>

definition argsort :: "int64 list \<Rightarrow> int64 list" where
  "argsort xs = map (of_nat \<circ> snd) (sort_key fst (zip (map sint xs) [0..<length xs]))"

definition noll_inverse :: "int64 list" where
  "noll_inverse = argsort noll_mapping"

section \<open>The index mapper\<close>

text \<open>
  \<open>noll2degrees\<close>.  The indices \<open>noll - 1\<close> and \<open>9 + 8 * p\<close> are \<open>int64\<close>
  arithmetic; \<open>np.sqrt\<close>, the division and \<open>np.ceil\<close> are floating point, taken here
  as the real functions (the table keeps \<open>p\<close> below 120, where the square root of a
  perfect square is exact in \<open>float64\<close> and every other value of
  \<open>(-3 + sqrt (9 + 8 p)) / 2\<close> is far from an integer).  \<open>n\<close> and \<open>m\<close> are
  integral floats; \<open>astype(int)\<close> makes them \<open>int64\<close> again.
\<close>

definition radial_of_index :: "int64 \<Rightarrow> int" where
  "radial_of_index p = \<lceil>(- 3 + sqrt (real_of_int (sint (9 + 8 * p)))) / 2\<rceil>"

definition azimuthal_of_index :: "int64 \<Rightarrow> int \<Rightarrow> int" where
  "azimuthal_of_index p n = sint (2 * p) - n * (n + 2)"

definition noll2degrees :: "ndarray \<Rightarrow> error + (int64 list \<times> int64 list)" where
  "noll2degrees noll =
     (case noll of
        FloatArr _ \<Rightarrow> Inl ValueError
      | IntArr js \<Rightarrow>
          if \<not> list_all (\<lambda>j. 0 < sint j) js then Inl ValueError
          else (case take_indices noll_inverse (map (\<lambda>j. sint (j - 1)) js) of
                  None \<Rightarrow> Inl IndexError
                | Some ps \<Rightarrow>
                    let ns = map radial_of_index ps;
                        ms = map2 azimuthal_of_index ps ns
                    in Inr (map word_of_int ns, map word_of_int ms)))"

text \<open>
  Broadcasting two arrays of at most one dimension: equal lengths pair up, a single
  element is repeated, anything else cannot be broadcast (NumPy raises \<open>ValueError\<close>).
\<close>

definition broadcast :: "'a list \<Rightarrow> 'b list \<Rightarrow> ('a \<times> 'b) list option" where
  "broadcast xs ys =
     (if length xs = length ys then Some (zip xs ys)
      else if length xs = 1 then Some (map (\<lambda>y. (hd xs, y)) ys)
      else if length ys = 1 then Some (map (\<lambda>x. (x, hd ys)) xs)
      else None)"

text \<open>\<open>astype(int)\<close> on a float: truncation towards zero.\<close>

definition astype_int :: "real \<Rightarrow> int" where
  "astype_int x = (if 0 \<le> x then \<lfloor>x\<rfloor> else \<lceil>x\<rceil>)"

text \<open>
  \<open>degrees2noll\<close>.  \<open>n - m\<close>, \<open>n * (n + 2)\<close> and the sum are \<open>int64\<close> arithmetic
  (they wrap around); \<open>%\<close> is Python's remainder, 0 or 1 here; \<open>/ 2\<close> is float
  division and \<open>astype(int)\<close> truncates.
\<close>

definition degrees2noll :: "ndarray \<Rightarrow> ndarray \<Rightarrow> error + int64 list" where
  "degrees2noll n m =
     (case n of
        FloatArr _ \<Rightarrow> Inl ValueError
      | IntArr ns \<Rightarrow>
          (case m of
             FloatArr _ \<Rightarrow> Inl ValueError
           | IntArr ms \<Rightarrow>
               (case broadcast ns ms of
                  None \<Rightarrow> Inl ValueError
                | Some nms \<Rightarrow>
                    if list_ex (\<lambda>(n, m). sint (n - m) mod 2 \<noteq> 0) nms then Inl ValueError
                    else (case take_indices noll_mapping
                                 (map (\<lambda>(n, m). astype_int (real_of_int (sint (m + n * (n + 2))) / 2))
                                      nms) of
                            None \<Rightarrow> Inl IndexError
                          | Some noll \<Rightarrow> Inr noll))))"

section \<open>Noll's ordering, generated\<close>

text \<open>
  The specification's rule for the ordering, to compare with the hardcoded table: radial
  degrees \<open>n = 0, 1, 2, ...\<close> in increasing order; for each the absolute azimuthal
  degrees \<open>|m| \<le> n\<close> of the parity of \<open>n\<close> in increasing order; \<open>|m| = 0\<close> takes one
  index, \<open>|m| > 0\<close> takes two consecutive indices, one for each sign.  Which sign comes
  first depends on \<open>n mod 4\<close>; the generator takes that choice as the predicate
  \<open>sine_first\<close>, true when the negative (sine) member gets the lower index.
\<close>

definition abs_azimuthals :: "nat \<Rightarrow> nat list" where
  "abs_azimuthals n = filter (\<lambda>k. even (n + k)) [0..<Suc n]"

definition degree_block :: "(nat \<Rightarrow> bool) \<Rightarrow> nat \<Rightarrow> (int \<times> int) list" where
  "degree_block sine_first n =
     concat (map (\<lambda>k. if k = 0 then [(int n, 0)]
                      else if sine_first n then [(int n, - int k), (int n, int k)]
                      else [(int n, int k), (int n, - int k)])
                 (abs_azimuthals n))"

definition ordering_by_rule :: "(nat \<Rightarrow> bool) \<Rightarrow> nat \<Rightarrow> (int \<times> int) list" where
  "ordering_by_rule sine_first N = concat (map (degree_block sine_first) [0..<N])"

text \<open>
  The choice as the specification words it (sine first for \<open>n mod 4\<close> in \<open>{0, 1}\<close>,
  reversed for \<open>{2, 3}\<close>), and the choice the other way round.
\<close>

definition spec_sine_first :: "nat \<Rightarrow> bool" where
  "spec_sine_first n = (n mod 4 = 0 \<or> n mod 4 = 1)"

definition noll_sine_first :: "nat \<Rightarrow> bool" where
  "noll_sine_first n = (n mod 4 = 2 \<or> n mod 4 = 3)"

text \<open>The first 120 degree pairs of Noll's ordering: radial degrees 0 to 14.\<close>

definition noll_order :: "(int \<times> int) list" where
  "noll_order = ordering_by_rule noll_sine_first 15"

text \<open>
  The forward table of an ordering: the pair \<open>(n, m)\<close> with rank \<open>j\<close> (counted from 1)
  puts \<open>j\<close> at position \<open>(m + n (n + 2)) / 2\<close>, the position \<open>degrees2noll\<close> reads.
\<close>

definition table_of_ordering :: "(int \<times> int) list \<Rightarrow> int list" where
  "table_of_ordering seq =
     fold (\<lambda>(j, (n, m)) t. t[nat ((m + n * (n + 2)) div 2) := int j])
          (zip [1..<Suc (length seq)] seq) (replicate (length seq) 0)"

section \<open>Floating-point values\<close>

text \<open>
  A \<open>float64\<close> value: a real number, one of the two infinities, or NaN.  Finite
  arithmetic is that of the reals (rounding, overflow and the sign of zero are left
  out); the special values follow IEEE 754, so that a division \<open>0 / 0\<close> or a product
  \<open>0 * inf\<close> is NaN, as in NumPy, and not a number as in HOL.
\<close>

datatype fval = Fin real | PInf | NInf | NaN

definition signed_inf :: "real \<Rightarrow> fval" where
  "signed_inf x = (if x = 0 then NaN else if 0 < x then PInf else NInf)"

fun fmul :: "fval \<Rightarrow> fval \<Rightarrow> fval" where
  "fmul (Fin x) (Fin y) = Fin (x * y)"
| "fmul (Fin x) PInf = signed_inf x"
| "fmul (Fin x) NInf = signed_inf (- x)"
| "fmul PInf (Fin y) = signed_inf y"
| "fmul NInf (Fin y) = signed_inf (- y)"
| "fmul PInf PInf = PInf"
| "fmul PInf NInf = NInf"
| "fmul NInf PInf = NInf"
| "fmul NInf NInf = PInf"
| "fmul _ _ = NaN"

fun fadd :: "fval \<Rightarrow> fval \<Rightarrow> fval" where
  "fadd (Fin x) (Fin y) = Fin (x + y)"
| "fadd (Fin x) PInf = PInf"
| "fadd (Fin x) NInf = NInf"
| "fadd PInf (Fin y) = PInf"
| "fadd NInf (Fin y) = NInf"
| "fadd PInf PInf = PInf"
| "fadd NInf NInf = NInf"
| "fadd _ _ = NaN"

fun fdiv :: "fval \<Rightarrow> fval \<Rightarrow> fval" where
  "fdiv (Fin x) (Fin y) = (if y = 0 then signed_inf x else Fin (x / y))"
| "fdiv (Fin x) PInf = Fin 0"
| "fdiv (Fin x) NInf = Fin 0"
| "fdiv PInf (Fin y) = (if 0 \<le> y then PInf else NInf)"
| "fdiv NInf (Fin y) = (if 0 \<le> y then NInf else PInf)"
| "fdiv _ _ = NaN"

fun fsqrt :: "fval \<Rightarrow> fval" where
  "fsqrt (Fin x) = (if x < 0 then NaN else Fin (sqrt x))"
| "fsqrt PInf = PInf"
| "fsqrt _ = NaN"

text \<open>\<open>x ** k\<close> for a float \<open>x\<close> and an integer \<open>k\<close>: \<open>0 ** k\<close> is infinite for negative \<open>k\<close>.\<close>

definition fpow :: "real \<Rightarrow> int \<Rightarrow> fval" where
  "fpow x k = (if 0 \<le> k then Fin (x ^ nat k)
               else if x = 0 then PInf
               else Fin (1 / x ^ nat (- k)))"

text \<open>\<open>np.linalg.norm\<close> of a flat array: the square root of the array's dot product with itself.\<close>

definition l2norm :: "fval list \<Rightarrow> fval" where
  "l2norm zs = fsqrt (foldr fadd (map (\<lambda>z. fmul z z) zs) (Fin 0))"

section \<open>The polynomial evaluator\<close>

text \<open>
  \<open>scipy.special.binom\<close> and \<open>scipy.special.hyp2f1\<close> are library functions, not code
  of this module: they are parameters of the model.  The module calls them with
  integer degrees, and \<open>hyp2f1\<close> with the float \<open>r ** (-2)\<close> as its last argument.
\<close>

record scipy =
  binom :: "int \<Rightarrow> int \<Rightarrow> fval"
  hyp2f1 :: "int \<Rightarrow> int \<Rightarrow> int \<Rightarrow> fval \<Rightarrow> fval"

definition const_scipy :: "fval \<Rightarrow> scipy" where
  "const_scipy v = \<lparr>binom = (\<lambda>_ _. v), hyp2f1 = (\<lambda>_ _ _ _. v)\<rparr>"

text \<open>
  \<open>_radial_zernike\<close>, entry by entry: the array starts as zeros, and only the entries
  with \<open>r <= 1\<close> are assigned.  \<open>n\<close> and \<open>m\<close> are \<open>int64\<close> scalars; \<open>//\<close> is floor
  division, and the unary minus binds tighter than \<open>//\<close>.
\<close>

definition radial_zernike :: "scipy \<Rightarrow> real list \<Rightarrow> int64 \<Rightarrow> int64 \<Rightarrow> fval list" where
  "radial_zernike sp r n m =
     map (\<lambda>x. if x \<le> 1
               then (if m = 0 \<and> n = 0 then Fin 1
                     else fmul (fmul (binom sp (sint n) (sint (n + m) div 2)) (fpow x (sint n)))
                               (hyp2f1 sp (sint (- (n + m)) div 2) (sint (- (n - m)) div 2)
                                       (sint (- n)) (fpow x (- 2))))
               else Fin 0) r"

text \<open>
  \<open>_zernike\<close>.  The sample grid is a list of points \<open>(r, theta)\<close>: the radius array and
  the angle array have the same shape, and both hold finite numbers.  \<open>norm_kw\<close> is
  the keyword argument \<open>norm\<close>, \<open>None\<close> when the caller leaves it out (the default
  is \<open>True\<close>).
\<close>

definition zernike_one ::
  "scipy \<Rightarrow> (real \<times> real) list \<Rightarrow> int64 \<Rightarrow> int64 \<Rightarrow> bool option \<Rightarrow> fval list" where
  "zernike_one sp pts n m norm_kw =
     (if sint (m - n) mod 2 \<noteq> 0 then map (\<lambda>_. Fin 0) pts
      else
        let zern = map2 fmul (radial_zernike sp (map fst pts) n m)
                     (map (\<lambda>t. Fin (if sint m < 0 then sin (real_of_int (sint m) * t)
                                     else cos (real_of_int (sint m) * t)))
                          (map snd pts))
        in if (case norm_kw of None \<Rightarrow> True | Some b \<Rightarrow> b)
           then map (\<lambda>z. fdiv z (l2norm zern)) zern
           else zern)"

text \<open>
  The entry point \<open>zernike\<close>.  Its positional arguments select the polynomials: one
  argument of fewer than two dimensions holds Noll indices, one argument of two
  dimensions holds a row of radial and a row of azimuthal degrees, two arguments are the
  radial and the azimuthal degrees (two scalars or two flat sequences).  Degrees given
  directly are integers here.
\<close>

datatype selector =
    Indices ndarray
  | Rows "int64 list list"
  | Cube
  | Degrees "int64 list" "int64 list"
  | Miscount

definition degrees_of_selector :: "selector \<Rightarrow> error + (int64 list \<times> int64 list)" where
  "degrees_of_selector sel =
     (case sel of
        Indices a \<Rightarrow> noll2degrees a
      | Rows rows \<Rightarrow> (case rows of [n, m] \<Rightarrow> Inr (n, m) | _ \<Rightarrow> Inl RuntimeError)
      | Cube \<Rightarrow> Inl ValueError
      | Degrees n m \<Rightarrow> if length n = length m then Inr (n, m) else Inl ValueError
      | Miscount \<Rightarrow> Inl ValueError)"

record grid =
  gshape :: "nat list"
  gpoints :: "(real \<times> real) list"

text \<open>An array of floats: its shape and its entries in row-major order.\<close>

type_synonym farray = "nat list \<times> fval list"

text \<open>\<open>np.array\<close> of a list of equally shaped arrays; of the empty list it has shape \<open>(0,)\<close>.\<close>

definition np_array :: "nat list \<Rightarrow> fval list list \<Rightarrow> farray" where
  "np_array sh rows = (if rows = [] then ([0], []) else (length rows # sh, concat rows))"

definition squeeze :: "farray \<Rightarrow> farray" where
  "squeeze a = (filter (\<lambda>d. d \<noteq> 1) (fst a), snd a)"

definition zernike :: "scipy \<Rightarrow> grid \<Rightarrow> selector \<Rightarrow> bool option \<Rightarrow> error + farray" where
  "zernike sp g sel norm_kw =
     (case degrees_of_selector sel of
        Inl e \<Rightarrow> Inl e
      | Inr (n, m) \<Rightarrow>
          if 2 < length (gshape g) then Inl ValueError
          else Inr (squeeze (np_array (gshape g)
                 (map (\<lambda>(nn, mm). zernike_one sp (gpoints g) nn mm norm_kw) (zip n m)))))"

text \<open>
  Evaluating each Noll index by itself through the entry point and stacking the results
  in order: the first failure is the failure of the whole, and the stack gets a leading
  axis that counts the results.
\<close>

fun collect :: "(error + 'a) list \<Rightarrow> error + 'a list" where
  "collect [] = Inr []"
| "collect (Inl e # _) = Inl e"
| "collect (Inr x # rs) = (case collect rs of Inl e \<Rightarrow> Inl e | Inr xs \<Rightarrow> Inr (x # xs))"

definition stack :: "farray list \<Rightarrow> farray" where
  "stack arrs =
     (if arrs = [] then ([0], []) else (length arrs # fst (hd arrs), concat (map snd arrs)))"

definition one_by_one :: "scipy \<Rightarrow> grid \<Rightarrow> int64 list \<Rightarrow> bool option \<Rightarrow> error + farray" where
  "one_by_one sp g js norm_kw =
     (case collect (map (\<lambda>j. zernike sp g (Indices (IntArr [j])) norm_kw) js) of
        Inl e \<Rightarrow> Inl e
      | Inr arrs \<Rightarrow> Inr (stack arrs))"

section \<open>Lemmas about the index mapper\<close>

lemma ceiling_sqrt_eq:
  fixes n S :: int
  assumes lo: "(2 * n + 1)\<^sup>2 < S" and hi: "S \<le> (2 * n + 3)\<^sup>2" and n: "- 1 \<le> n"
  shows "\<lceil>(- 3 + sqrt (real_of_int S)) / 2\<rceil> = n"
proof (rule ceiling_unique)
  have "(real_of_int (2 * n + 1))\<^sup>2 < real_of_int S"
    using lo by (metis of_int_less_iff of_int_power)
  then have "real_of_int (2 * n + 1) < sqrt (real_of_int S)"
    by (rule real_less_rsqrt)
  then show "real_of_int n - 1 < (- 3 + sqrt (real_of_int S)) / 2"
    by simp
  have "real_of_int S \<le> (real_of_int (2 * n + 3))\<^sup>2"
    using hi by (metis of_int_le_iff of_int_power)
  moreover have "0 \<le> real_of_int (2 * n + 3)"
    using n by simp
  ultimately have "sqrt (real_of_int S) \<le> real_of_int (2 * n + 3)"
    by (simp add: real_le_lsqrt)
  then show "(- 3 + sqrt (real_of_int S)) / 2 \<le> real_of_int n"
    by simp
qed

lemma inverse_table_check:
  "list_all2 (\<lambda>p (n, m). (2 * n + 1)\<^sup>2 < sint (9 + 8 * p) \<and> sint (9 + 8 * p) \<le> (2 * n + 3)\<^sup>2
                 \<and> - 1 \<le> n \<and> m = sint (2 * p) - n * (n + 2))
     noll_inverse noll_order"
  by code_simp

lemma length_noll_inverse: "length noll_inverse = 120"
  by code_simp

lemma degrees_of_inverse:
  assumes "k < 120"
  shows "radial_of_index (noll_inverse ! k) = fst (noll_order ! k)"
    and "azimuthal_of_index (noll_inverse ! k) (fst (noll_order ! k)) = snd (noll_order ! k)"
proof -
  obtain n m where nm: "noll_order ! k = (n, m)" by (cases "noll_order ! k")
  have "(\<lambda>p (n, m). (2 * n + 1)\<^sup>2 < sint (9 + 8 * p) \<and> sint (9 + 8 * p) \<le> (2 * n + 3)\<^sup>2
                 \<and> - 1 \<le> n \<and> m = sint (2 * p) - n * (n + 2)) (noll_inverse ! k) (noll_order ! k)"
    using list_all2_nthD [OF inverse_table_check] assms length_noll_inverse by simp
  then have *: "(2 * n + 1)\<^sup>2 < sint (9 + 8 * noll_inverse ! k)"
      "sint (9 + 8 * noll_inverse ! k) \<le> (2 * n + 3)\<^sup>2" "- 1 \<le> n"
      "m = sint (2 * noll_inverse ! k) - n * (n + 2)"
    by (simp_all add: nm)
  show "radial_of_index (noll_inverse ! k) = fst (noll_order ! k)"
    unfolding radial_of_index_def nm using ceiling_sqrt_eq [OF *(1-3)] by simp
  show "azimuthal_of_index (noll_inverse ! k) (fst (noll_order ! k)) = snd (noll_order ! k)"
    unfolding azimuthal_of_index_def nm using *(4) by simp
qed

lemma take_indices_Some:
  assumes "\<forall>i\<in>set is. 0 \<le> i \<and> i < int (length xs)"
  shows "take_indices xs is = Some (map (\<lambda>i. xs ! nat i) is)"
  using assms by (induction "is") (simp_all add: np_index_def)

lemma take_indices_None:
  assumes "i \<in> set is" and "int (length xs) \<le> i"
  shows "take_indices xs is = None"
  using assms by (induction "is") (auto simp: np_index_def split: option.splits)

lemma sint_pred:
  fixes j :: int64
  assumes "0 < sint j"
  shows "sint (j - 1) = sint j - 1"
proof -
  have "sint j < 2 ^ 63" using sint_lt [of j] by simp
  then have "signed_take_bit 63 (sint j - 1) = sint j - 1"
    using assms by (intro signed_take_bit_int_eq_self) simp_all
  then show ?thesis by (simp add: sint_word_diff)
qed

lemma noll2degrees_valid:
  assumes ok: "\<forall>j\<in>set js. 1 \<le> sint j \<and> sint j \<le> 120"
  shows "noll2degrees (IntArr js) =
           Inr (map (\<lambda>j. word_of_int (fst (noll_order ! nat (sint j - 1)))) js,
                map (\<lambda>j. word_of_int (snd (noll_order ! nat (sint j - 1)))) js)"
proof -
  have pos: "list_all (\<lambda>j. 0 < sint j) js"
    using ok by (auto simp: list_all_iff)
  have idx: "map (\<lambda>j. sint (j - 1)) js = map (\<lambda>j. sint j - 1) js"
    using ok by (intro map_cong refl sint_pred) auto
  have "take_indices noll_inverse (map (\<lambda>j. sint j - 1) js)
          = Some (map (\<lambda>i. noll_inverse ! nat i) (map (\<lambda>j. sint j - 1) js))"
    using ok by (intro take_indices_Some) (auto simp: length_noll_inverse)
  then have take: "take_indices noll_inverse (map (\<lambda>j. sint (j - 1)) js)
          = Some (map (\<lambda>j. noll_inverse ! nat (sint j - 1)) js)"
    by (simp add: idx o_def)
  have k: "nat (sint j - 1) < 120" if "j \<in> set js" for j
    using ok that by auto
  have ns: "map radial_of_index (map (\<lambda>j. noll_inverse ! nat (sint j - 1)) js)
              = map (\<lambda>j. fst (noll_order ! nat (sint j - 1))) js"
    using k by (simp add: degrees_of_inverse(1))
  have ms: "map2 azimuthal_of_index (map (\<lambda>j. noll_inverse ! nat (sint j - 1)) js)
              (map (\<lambda>j. fst (noll_order ! nat (sint j - 1))) js)
              = map (\<lambda>j. snd (noll_order ! nat (sint j - 1))) js"
    using k by (simp add: zip_map_map zip_same_conv_map degrees_of_inverse(2))
  have "noll2degrees (IntArr js) =
          Inr (map word_of_int (map radial_of_index (map (\<lambda>j. noll_inverse ! nat (sint j - 1)) js)),
               map word_of_int (map2 azimuthal_of_index (map (\<lambda>j. noll_inverse ! nat (sint j - 1)) js)
                   (map radial_of_index (map (\<lambda>j. noll_inverse ! nat (sint j - 1)) js))))"
    by (simp only: noll2degrees_def ndarray.case pos not_True_eq_False if_False take option.case Let_def)
  then have "noll2degrees (IntArr js) =
          Inr (map word_of_int (map (\<lambda>j. fst (noll_order ! nat (sint j - 1))) js),
               map word_of_int (map (\<lambda>j. snd (noll_order ! nat (sint j - 1))) js))"
    by (simp only: ns ms)
  then show ?thesis
    by (simp add: o_def)
qed

lemma noll2degrees_ValueError_iff:
  "noll2degrees x = Inl ValueError \<longleftrightarrow>
     (\<exists>xs. x = FloatArr xs) \<or> (\<exists>js. x = IntArr js \<and> (\<exists>j\<in>set js. sint j \<le> 0))"
  by (cases x) (auto simp: noll2degrees_def list_all_iff Let_def not_less split: option.splits)

lemma noll2degrees_IndexError:
  assumes pos: "\<forall>j\<in>set js. 0 < sint j" and big: "\<exists>j\<in>set js. 120 < sint j"
  shows "noll2degrees (IntArr js) = Inl IndexError"
proof -
  from big obtain j where j: "j \<in> set js" "120 < sint j" by blast
  have "sint (j - 1) \<in> set (map (\<lambda>j. sint (j - 1)) js)"
    using j(1) by simp
  moreover have "int (length noll_inverse) \<le> sint (j - 1)"
    using j pos by (simp add: sint_pred length_noll_inverse)
  ultimately have "take_indices noll_inverse (map (\<lambda>j. sint (j - 1)) js) = None"
    by (rule take_indices_None)
  then show ?thesis
    unfolding noll2degrees_def using pos by (simp add: list_all_iff)
qed

lemma astype_int_half:
  assumes "even s"
  shows "astype_int (real_of_int s / 2) = s div 2"
proof -
  from assms obtain t where s: "s = 2 * t" by (elim evenE)
  show ?thesis by (simp add: s astype_int_def)
qed

lemma mapping_table_check:
  "list_all2 (\<lambda>(n, m) j. sint ((word_of_int n :: int64) - word_of_int m) mod 2 = 0
                  \<and> even (sint ((word_of_int m :: int64) + word_of_int n * (word_of_int n + 2)))
                  \<and> np_index noll_mapping
                        (sint ((word_of_int m :: int64) + word_of_int n * (word_of_int n + 2)) div 2) = Some j)
     noll_order (map of_nat [1..<121])"
  by code_simp

lemma length_noll_order: "length noll_order = 120"
  by code_simp

lemma degrees2noll_of_rank:
  assumes k: "k < 120" and nm: "noll_order ! k = (n, m)"
  shows "degrees2noll (IntArr [word_of_int n]) (IntArr [word_of_int m]) = Inr [of_nat (Suc k)]"
proof -
  have "(\<lambda>(n, m) j. sint ((word_of_int n :: int64) - word_of_int m) mod 2 = 0
                  \<and> even (sint ((word_of_int m :: int64) + word_of_int n * (word_of_int n + 2)))
                  \<and> np_index noll_mapping
                        (sint ((word_of_int m :: int64) + word_of_int n * (word_of_int n + 2)) div 2) = Some j)
          (noll_order ! k) (map of_nat [1..<121] ! k)"
    using list_all2_nthD [OF mapping_table_check] k length_noll_order by simp
  moreover have "map of_nat [1..<121] ! k = (of_nat (Suc k) :: int64)"
    using k by (simp del: upt_Suc)
  ultimately have *: "sint ((word_of_int n :: int64) - word_of_int m) mod 2 = 0"
      "even (sint ((word_of_int m :: int64) + word_of_int n * (word_of_int n + 2)))"
      "np_index noll_mapping
         (sint ((word_of_int m :: int64) + word_of_int n * (word_of_int n + 2)) div 2) = Some (of_nat (Suc k))"
    by (simp_all add: nm)
  show ?thesis
    unfolding degrees2noll_def
    by (simp add: broadcast_def * astype_int_half [OF *(2)] del: of_int_sint)
qed


lemma odd_sint_diff:
  fixes a b :: int64
  shows "sint (a - b) mod 2 \<noteq> 0 \<longleftrightarrow> odd (sint a - sint b)"
proof -
  have "even (sint (a - b)) \<longleftrightarrow> even (sint a - sint b)"
    by (simp only: sint_word_diff even_signed_take_bit_iff)
  then show ?thesis
    by (simp only: even_iff_mod_2_eq_zero)
qed

lemma noll_order_valid:
  "list_all (\<lambda>(n, m). 0 \<le> n \<and> n \<le> 14 \<and> \<bar>m\<bar> \<le> n \<and> even (n - m)) noll_order"
  by code_simp

lemma in_degree_block:
  assumes "\<bar>m\<bar> \<le> int n" "even (int n - m)"
  shows "(int n, m) \<in> set (degree_block sf n)"
proof -
  define k where "k = nat \<bar>m\<bar>"
  have k: "k \<in> set (abs_azimuthals n)"
    using assms unfolding abs_azimuthals_def k_def by (auto simp: even_nat_iff)
  define F where "F = (\<lambda>k. if k = 0 then [(int n, 0)]
                      else if sf n then [(int n, - int k), (int n, int k)]
                      else [(int n, int k), (int n, - int k)])"
  have db: "degree_block sf n = concat (map F (abs_azimuthals n))"
    unfolding degree_block_def F_def ..
  have "(int n, m) \<in> set (F k)"
    unfolding F_def k_def by auto
  with k show ?thesis
    unfolding db by auto
qed

lemma in_noll_order:
  assumes "0 \<le> n" "n \<le> 14" "\<bar>m\<bar> \<le> n" "even (n - m)"
  shows "\<exists>k<120. noll_order ! k = (n, m)"
proof -
  have "(int (nat n), m) \<in> set (degree_block noll_sine_first (nat n))"
    using assms by (intro in_degree_block) auto
  moreover have "nat n \<in> set [0..<15]"
    using assms by auto
  ultimately have "(n, m) \<in> set noll_order"
    using assms(1) unfolding noll_order_def ordering_by_rule_def by auto
  then show ?thesis
    by (simp add: in_set_conv_nth length_noll_order)
qed

lemma sint_rank:
  assumes "k < 120"
  shows "sint (of_nat (Suc k) :: int64) = int (Suc k)"
proof -
  have "signed_take_bit 63 (int (Suc k)) = int (Suc k)"
    using assms by (intro signed_take_bit_int_eq_self) simp_all
  then show ?thesis
    by (simp only: Word.signed_of_nat [where 'a = int and 'b = 64, simplified] of_int_eq_id id_apply)
qed

section \<open>The claims about the index mapper\<close>

text \<open>
  C1.  Round trip.  For every Noll index \<open>j\<close> from 1 to 120, \<open>noll2degrees\<close> succeeds
  with a degree pair \<open>(n, m)\<close> that has \<open>0 \<le> n \<le> 14\<close>, \<open>|m| \<le> n\<close> and \<open>n - m\<close> even,
  and \<open>degrees2noll\<close> maps that pair back to \<open>j\<close>.  For every such degree pair,
  \<open>degrees2noll\<close> succeeds with a Noll index from 1 to 120, and \<open>noll2degrees\<close> maps
  that index back to the pair.
\<close>

theorem noll_round_trip:
  "(1 \<le> sint j \<and> sint j \<le> 120 \<longrightarrow>
      (\<exists>n m. noll2degrees (IntArr [j]) = Inr ([word_of_int n], [word_of_int m])
          \<and> 0 \<le> n \<and> n \<le> 14 \<and> \<bar>m\<bar> \<le> n \<and> even (n - m)
          \<and> degrees2noll (IntArr [word_of_int n]) (IntArr [word_of_int m]) = Inr [j]))
   \<and> (0 \<le> n \<and> n \<le> 14 \<and> \<bar>m\<bar> \<le> n \<and> even (n - m) \<longrightarrow>
      (\<exists>j. degrees2noll (IntArr [word_of_int n]) (IntArr [word_of_int m]) = Inr [j]
          \<and> 1 \<le> sint j \<and> sint j \<le> 120
          \<and> noll2degrees (IntArr [j]) = Inr ([word_of_int n], [word_of_int m])))"
proof (intro conjI impI)
  assume j: "1 \<le> sint j \<and> sint j \<le> 120"
  define k where "k = nat (sint j - 1)"
  obtain n m where nm: "noll_order ! k = (n, m)" by (cases "noll_order ! k")
  have k: "k < 120" using j by (auto simp: k_def)
  have jk: "of_nat (Suc k) = j"
    using j by (auto simp: k_def)
  have fwd: "noll2degrees (IntArr [j]) = Inr ([word_of_int n], [word_of_int m])"
    using noll2degrees_valid [of "[j]"] j nm by (simp add: k_def)
  have bwd: "degrees2noll (IntArr [word_of_int n]) (IntArr [word_of_int m]) = Inr [j]"
    using degrees2noll_of_rank [OF k nm] jk by simp
  have "(n, m) \<in> set noll_order"
    using k nm length_noll_order by (metis nth_mem)
  with noll_order_valid have "0 \<le> n \<and> n \<le> 14 \<and> \<bar>m\<bar> \<le> n \<and> even (n - m)"
    unfolding list_all_iff by blast
  with fwd bwd show "\<exists>n m. noll2degrees (IntArr [j]) = Inr ([word_of_int n], [word_of_int m])
          \<and> 0 \<le> n \<and> n \<le> 14 \<and> \<bar>m\<bar> \<le> n \<and> even (n - m)
          \<and> degrees2noll (IntArr [word_of_int n]) (IntArr [word_of_int m]) = Inr [j]"
    by blast
next
  assume "0 \<le> n \<and> n \<le> 14 \<and> \<bar>m\<bar> \<le> n \<and> even (n - m)"
  then obtain k where k: "k < 120" and nm: "noll_order ! k = (n, m)"
    using in_noll_order by blast
  define j :: int64 where "j = of_nat (Suc k)"
  have sj: "sint j = int (Suc k)"
    unfolding j_def using k by (rule sint_rank)
  have bwd: "degrees2noll (IntArr [word_of_int n]) (IntArr [word_of_int m]) = Inr [j]"
    unfolding j_def by (rule degrees2noll_of_rank [OF k nm])
  have fwd: "noll2degrees (IntArr [j]) = Inr ([word_of_int n], [word_of_int m])"
    using noll2degrees_valid [of "[j]"] k by (simp add: sj nm)
  show "\<exists>j. degrees2noll (IntArr [word_of_int n]) (IntArr [word_of_int m]) = Inr [j]
          \<and> 1 \<le> sint j \<and> sint j \<le> 120
          \<and> noll2degrees (IntArr [j]) = Inr ([word_of_int n], [word_of_int m])"
    using bwd fwd k by (intro exI [of _ j]) (simp add: sj)
qed

theorem noll_round_trip_witness:
  "(\<exists>n m. noll2degrees (IntArr [7]) = Inr ([word_of_int n], [word_of_int m])
          \<and> 0 \<le> n \<and> n \<le> 14 \<and> \<bar>m\<bar> \<le> n \<and> even (n - m)
          \<and> degrees2noll (IntArr [word_of_int n]) (IntArr [word_of_int m]) = Inr [7])
   \<and> (\<exists>j. degrees2noll (IntArr [3]) (IntArr [- 1]) = Inr [j]
          \<and> 1 \<le> sint j \<and> sint j \<le> 120
          \<and> noll2degrees (IntArr [j]) = Inr ([3], [- 1]))"
  using noll_round_trip [of 7 3 "- 1"] by simp

text \<open>
  C2, as the specification words the rule (the negative, sine member of a pair gets the
  lower index when \<open>n mod 4\<close> is 0 or 1): the generated table differs from the hardcoded
  one already at position 1, the pair \<open>(1, -1)\<close>, which the hardcoded table sends to
  Noll index 3 and the rule as worded to 2.
\<close>

theorem spec_rule_counterexample:
  "sint (noll_mapping ! 1) = 3
   \<and> table_of_ordering (ordering_by_rule spec_sine_first 15) ! 1 = 2"
proof
  show "sint (noll_mapping ! 1) = 3"
    by (simp add: noll_mapping_def)
  show "table_of_ordering (ordering_by_rule spec_sine_first 15) ! 1 = 2"
    by code_simp
qed

text \<open>
  C2, amended: the hardcoded table is the table generated by the rule with the signs the
  other way round: radial degrees 0 to 14 in increasing order, for each the absolute
  azimuthal degrees of its parity in increasing order, one index for azimuthal degree 0
  and two consecutive indices for a pair, the positive (cosine) member first when
  \<open>n mod 4\<close> is 0 or 1 and the negative (sine) member first when it is 2 or 3.
\<close>

theorem noll_mapping_generated:
  "map sint noll_mapping = table_of_ordering (ordering_by_rule noll_sine_first 15)
   \<and> length (ordering_by_rule noll_sine_first 15) = 120"
proof
  have "table_of_ordering (ordering_by_rule noll_sine_first 15) =
    [1, 3, 2, 5, 4, 6, 9, 7, 8, 10, 15, 13, 11, 12, 14, 21, 19, 17, 16,
     18, 20, 27, 25, 23, 22, 24, 26, 28, 35, 33, 31, 29, 30, 32, 34,
     36, 45, 43, 41, 39, 37, 38, 40, 42, 44, 55, 53, 51, 49, 47, 46,
     48, 50, 52, 54, 65, 63, 61, 59, 57, 56, 58, 60, 62, 64, 66, 77,
     75, 73, 71, 69, 67, 68, 70, 72, 74, 76, 78, 91, 89, 87, 85, 83,
     81, 79, 80, 82, 84, 86, 88, 90, 105, 103, 101, 99, 97, 95, 93,
     92, 94, 96, 98, 100, 102, 104, 119, 117, 115, 113, 111, 109,
     107, 106, 108, 110, 112, 114, 116, 118, 120]"
    by code_simp
  then show "map sint noll_mapping = table_of_ordering (ordering_by_rule noll_sine_first 15)"
    by (simp add: noll_mapping_def)
  show "length (ordering_by_rule noll_sine_first 15) = 120"
    by code_simp
qed

text \<open>
  C3.  The known mappings: Noll indices 1 to 11 map to the degree pairs (0,0), (1,1),
  (1,-1), (2,0), (2,-2), (2,2), (3,-1), (3,1), (3,-3), (3,3) and (4,0).
\<close>

theorem known_mappings:
  "noll2degrees (IntArr [1, 2, 3, 4, 5, 6, 7, 8, 9, 10, 11]) =
     Inr ([0, 1, 1, 2, 2, 2, 3, 3, 3, 3, 4], [0, 1, - 1, 0, - 2, 2, - 1, 1, - 3, 3, 0])"
proof -
  have n: "map (\<lambda>j. word_of_int (fst (noll_order ! nat (sint j - 1))))
             [1, 2, 3, 4, 5, 6, 7, 8, 9, 10, 11 :: int64]
           = [0, 1, 1, 2, 2, 2, 3, 3, 3, 3, 4 :: int64]"
    by code_simp
  have m: "map (\<lambda>j. word_of_int (snd (noll_order ! nat (sint j - 1))))
             [1, 2, 3, 4, 5, 6, 7, 8, 9, 10, 11 :: int64]
           = [0, 1, - 1, 0, - 2, 2, - 1, 1, - 3, 3, 0 :: int64]"
    by code_simp
  have "\<forall>j\<in>set [1, 2, 3, 4, 5, 6, 7, 8, 9, 10, 11 :: int64]. 1 \<le> sint j \<and> sint j \<le> 120"
    by simp
  from noll2degrees_valid [OF this] show ?thesis
    by (simp only: n m)
qed

text \<open>
  C7, as stated, fails on a positive index beyond the table: index 121 is positive, and
  \<open>noll2degrees\<close> neither succeeds nor raises the \<open>ValueError\<close> of its checks; the
  table lookup raises \<open>IndexError\<close>.
\<close>

theorem noll2degrees_121_counterexample:
  "0 < sint (121 :: int64) \<and> noll2degrees (IntArr [121]) = Inl IndexError"
  using noll2degrees_IndexError [of "[121]"] by simp

text \<open>
  C7, amended: \<open>noll2degrees\<close> fails with \<open>ValueError\<close> exactly when the input is not
  of integer type or holds a value that is not positive; for every array of integers
  from 1 to 120 it succeeds and returns, for each index, the degree pair at that rank in
  Noll's ordering; for an array of positive integers with one above 120 it fails with
  \<open>IndexError\<close>.
\<close>

theorem noll2degrees_contract:
  "(noll2degrees x = Inl ValueError \<longleftrightarrow>
      (\<exists>xs. x = FloatArr xs) \<or> (\<exists>js. x = IntArr js \<and> (\<exists>j\<in>set js. sint j \<le> 0)))
   \<and> ((\<forall>j\<in>set js. 1 \<le> sint j \<and> sint j \<le> 120) \<longrightarrow>
        noll2degrees (IntArr js) =
          Inr (map (\<lambda>j. word_of_int (fst (noll_order ! nat (sint j - 1)))) js,
               map (\<lambda>j. word_of_int (snd (noll_order ! nat (sint j - 1)))) js))
   \<and> ((\<forall>j\<in>set ks. 0 < sint j) \<and> (\<exists>j\<in>set ks. 120 < sint j) \<longrightarrow>
        noll2degrees (IntArr ks) = Inl IndexError)"
  using noll2degrees_ValueError_iff [of x] noll2degrees_valid [of js]
    noll2degrees_IndexError [of ks]
  by blast

theorem noll2degrees_contract_witness:
  "noll2degrees (FloatArr [1]) = Inl ValueError
   \<and> noll2degrees (IntArr [3, 0]) = Inl ValueError
   \<and> noll2degrees (IntArr [4, 12]) = Inr ([2, 4], [0, 2])
   \<and> noll2degrees (IntArr [5, 121]) = Inl IndexError"
proof -
  have r: "noll_order ! 3 = (2, 0)" "noll_order ! 11 = (4, 2)"
    by code_simp+
  show ?thesis
    using noll2degrees_contract [of "IntArr [3, 0]" "[4, 12]" "[5, 121]"]
      noll2degrees_contract [of "FloatArr [1]" "[]" "[]"]
    by (simp add: r)
qed

text \<open>
  C8.  Parity rejection: \<open>degrees2noll\<close> fails with \<open>ValueError\<close> whenever the radial
  or the azimuthal degrees are not of integer type, and whenever some radial degree
  and the azimuthal degree paired with it differ by an odd number.
\<close>

theorem degrees2noll_rejects:
  "degrees2noll (FloatArr x) m = Inl ValueError
   \<and> degrees2noll n (FloatArr y) = Inl ValueError
   \<and> (broadcast ns ms = Some nms \<and> (a, b) \<in> set nms \<and> odd (sint a - sint b) \<longrightarrow>
        degrees2noll (IntArr ns) (IntArr ms) = Inl ValueError)"
proof (intro conjI impI)
  show "degrees2noll (FloatArr x) m = Inl ValueError"
    by (simp add: degrees2noll_def)
  show "degrees2noll n (FloatArr y) = Inl ValueError"
    by (cases n) (simp_all add: degrees2noll_def)
  assume h: "broadcast ns ms = Some nms \<and> (a, b) \<in> set nms \<and> odd (sint a - sint b)"
  then have "list_ex (\<lambda>(n, m). sint (n - m) mod 2 \<noteq> 0) nms"
    unfolding list_ex_iff using odd_sint_diff [of a b] by blast
  then show "degrees2noll (IntArr ns) (IntArr ms) = Inl ValueError"
    using h by (simp add: degrees2noll_def)
qed

theorem degrees2noll_rejects_witness:
  "degrees2noll (FloatArr [2]) (IntArr [0]) = Inl ValueError
   \<and> degrees2noll (IntArr [2]) (FloatArr [0]) = Inl ValueError
   \<and> degrees2noll (IntArr [2, 3, 10]) (IntArr [0, 1, 3]) = Inl ValueError"
  using degrees2noll_rejects [of "[2]" "IntArr [0]" "IntArr [2]" "[0]"
      "[2, 3, 10]" "[0, 1, 3]" "[(2, 0), (3, 1), (10, 3)]" 10 3]
  by (simp add: broadcast_def)

section \<open>Lemmas about the evaluator\<close>

lemma sum_squares_Fin:
  "foldr fadd (map (\<lambda>z. fmul z z) (map Fin xs)) (Fin 0) = Fin (\<Sum>x\<leftarrow>xs. x\<^sup>2)"
  by (induction xs) (simp_all add: power2_eq_square)

lemma l2norm_Fin: "l2norm (map Fin xs) = Fin (sqrt (\<Sum>x\<leftarrow>xs. x\<^sup>2))"
proof -
  have "0 \<le> (\<Sum>x\<leftarrow>xs. x\<^sup>2)"
    by (rule sum_list_nonneg) auto
  then show ?thesis
    by (simp add: l2norm_def sum_squares_Fin del: map_map)
qed

lemma fmul_self_Fin: "fmul z z = Fin s \<Longrightarrow> \<exists>x. z = Fin x"
  by (cases z) simp_all

lemma fadd_Fin: "fadd a b = Fin s \<Longrightarrow> (\<exists>x. a = Fin x) \<and> (\<exists>y. b = Fin y)"
  by (cases a; cases b) simp_all

lemma sum_squares_finite:
  "foldr fadd (map (\<lambda>z. fmul z z) zs) (Fin 0) = Fin s \<Longrightarrow> \<exists>xs. zs = map Fin xs"
proof (induction zs arbitrary: s)
  case Nil
  then show ?case by simp
next
  case (Cons z zs)
  from Cons.prems have "fadd (fmul z z) (foldr fadd (map (\<lambda>z. fmul z z) zs) (Fin 0)) = Fin s"
    by simp
  from fadd_Fin [OF this] obtain a b where
    a: "fmul z z = Fin a" and b: "foldr fadd (map (\<lambda>z. fmul z z) zs) (Fin 0) = Fin b"
    by blast
  from fmul_self_Fin [OF a] obtain x where x: "z = Fin x" by blast
  from Cons.IH [OF b] obtain xs where xs: "zs = map Fin xs" by blast
  show ?case
    by (rule exI [of _ "x # xs"]) (simp add: x xs)
qed

lemma fsqrt_Fin: "fsqrt v = Fin N \<Longrightarrow> \<exists>s. v = Fin s"
  by (cases v) simp_all

lemma l2norm_finite:
  assumes "l2norm zs = Fin N"
  shows "\<exists>xs. zs = map Fin xs"
proof -
  from assms obtain s where "foldr fadd (map (\<lambda>z. fmul z z) zs) (Fin 0) = Fin s"
    unfolding l2norm_def using fsqrt_Fin by blast
  then show ?thesis by (rule sum_squares_finite)
qed

lemma sum_list_squares_divide:
  fixes c :: real
  shows "(\<Sum>x\<leftarrow>xs. (x / c)\<^sup>2) = (\<Sum>x\<leftarrow>xs. x\<^sup>2) / c\<^sup>2"
  by (induction xs) (simp_all add: power_divide add_divide_distrib)

lemma l2norm_normalised:
  assumes N: "l2norm zs = Fin N" and nz: "N \<noteq> 0"
  shows "l2norm (map (\<lambda>z. fdiv z (l2norm zs)) zs) = Fin 1"
proof -
  from l2norm_finite [OF N] obtain xs where zs: "zs = map Fin xs" by blast
  define S where "S = (\<Sum>x\<leftarrow>xs. x\<^sup>2)"
  have S0: "0 \<le> S" unfolding S_def by (rule sum_list_nonneg) auto
  have NS: "N = sqrt S" using N by (simp add: zs l2norm_Fin S_def)
  have N2: "N\<^sup>2 = S" using S0 by (simp add: NS)
  have Sz: "S \<noteq> 0" using nz NS by auto
  have N': "l2norm (map Fin xs) = Fin N"
    using N by (simp only: zs)
  have "map (\<lambda>z. fdiv z (l2norm zs)) zs = map Fin (map (\<lambda>x. x / N) xs)"
    using nz by (simp add: N' zs)
  then have "l2norm (map (\<lambda>z. fdiv z (l2norm zs)) zs) = Fin (sqrt (\<Sum>x\<leftarrow>map (\<lambda>x. x / N) xs. x\<^sup>2))"
    by (simp only: l2norm_Fin)
  also have "(\<Sum>x\<leftarrow>map (\<lambda>x. x / N) xs. x\<^sup>2) = (\<Sum>x\<leftarrow>xs. (x / N)\<^sup>2)"
    by (simp add: o_def)
  also have "\<dots> = S / N\<^sup>2"
    by (simp add: sum_list_squares_divide S_def)
  also have "\<dots> = 1"
    using Sz by (simp add: N2)
  finally show ?thesis by simp
qed


lemma zernike_one_default: "zernike_one sp pts n m None = zernike_one sp pts n m (Some True)"
  by (simp add: zernike_one_def)

lemma zernike_one_normed:
  assumes "sint (m - n) mod 2 = 0"
  shows "zernike_one sp pts n m (Some True) =
           map (\<lambda>z. fdiv z (l2norm (zernike_one sp pts n m (Some False))))
               (zernike_one sp pts n m (Some False))"
  using assms by (simp add: zernike_one_def Let_def)




lemma zernike_degrees_single:
  assumes "length (gshape g) \<le> 2"
  shows "zernike sp g (Degrees [n] [m]) nk =
           Inr (filter (\<lambda>d. d \<noteq> 1) (gshape g), zernike_one sp (gpoints g) n m nk)"
  using assms by (simp add: zernike_def degrees_of_selector_def squeeze_def np_array_def)

lemma collect_Inr: "collect (map (\<lambda>x. Inr (f x)) xs) = Inr (map f xs)"
  by (induction xs) simp_all

lemma collect_Inl: "xs \<noteq> [] \<Longrightarrow> collect (map (\<lambda>x. Inl e) xs) = Inl e"
  by (cases xs) simp_all

lemma squeeze_single: "squeeze (np_array sh [z]) = (filter (\<lambda>d. d \<noteq> 1) sh, z)"
  by (simp add: squeeze_def np_array_def)

lemma zernike_indices_valid:
  assumes ok: "\<forall>j\<in>set js. 1 \<le> sint j \<and> sint j \<le> 120"
  shows "zernike sp g (Indices (IntArr js)) nk =
           (if 2 < length (gshape g) then Inl ValueError
            else Inr (squeeze (np_array (gshape g)
                   (map (\<lambda>j. zernike_one sp (gpoints g)
                                (word_of_int (fst (noll_order ! nat (sint j - 1))))
                                (word_of_int (snd (noll_order ! nat (sint j - 1)))) nk) js))))"
  by (simp add: zernike_def degrees_of_selector_def noll2degrees_valid [OF ok]
        zip_map_map zip_same_conv_map o_def)

text \<open>
  What the normalization does on a pair of degrees with \<open>m - n\<close> even: the result is
  the unnormalized array divided entry by entry by its Euclidean norm, and it has
  Euclidean norm 1 when that norm is a finite number other than 0.
\<close>

lemma normalization_by_design:
  "zernike_one sp pts n m None = zernike_one sp pts n m (Some True)
   \<and> (sint (m - n) mod 2 = 0 \<longrightarrow>
        zernike_one sp pts n m (Some True) =
          map (\<lambda>z. fdiv z (l2norm (zernike_one sp pts n m (Some False))))
              (zernike_one sp pts n m (Some False))
        \<and> (l2norm (zernike_one sp pts n m (Some False)) = Fin N \<and> N \<noteq> 0 \<longrightarrow>
             l2norm (zernike_one sp pts n m (Some True)) = Fin 1))"
proof (intro conjI impI)
  show "zernike_one sp pts n m None = zernike_one sp pts n m (Some True)"
    by (rule zernike_one_default)
  assume par: "sint (m - n) mod 2 = 0"
  then show eq: "zernike_one sp pts n m (Some True) =
          map (\<lambda>z. fdiv z (l2norm (zernike_one sp pts n m (Some False))))
              (zernike_one sp pts n m (Some False))"
    by (rule zernike_one_normed)
  assume "l2norm (zernike_one sp pts n m (Some False)) = Fin N \<and> N \<noteq> 0"
  then have "l2norm (map (\<lambda>z. fdiv z (l2norm (zernike_one sp pts n m (Some False))))
              (zernike_one sp pts n m (Some False))) = Fin 1"
    using l2norm_normalised by blast
  then show "l2norm (zernike_one sp pts n m (Some True)) = Fin 1"
    by (simp only: eq)
qed

text \<open>
  The entry of the unnormalized array at a sample point of radius 0, for the degrees
  (2, 0): \<open>binom(2, 1) * 0 ** 2 * hyp2f1(-1, -1, -2, 0 ** (-2))\<close>, times \<open>cos (0 * theta)\<close>.
\<close>

lemma fmul_zero_cases: "fmul (Fin 0) v = Fin 0 \<or> fmul (Fin 0) v = NaN"
  by (cases v) (simp_all add: signed_inf_def)

lemma fmul_zero_right_cases: "fmul v (Fin 0) = Fin 0 \<or> fmul v (Fin 0) = NaN"
  by (cases v) (simp_all add: signed_inf_def)

lemma fmul_NaN_left: "fmul NaN v = NaN"
  by (cases v) simp_all

lemma fmul_one_right: "fmul v (Fin 1) = v"
  by (cases v) (simp_all add: signed_inf_def)

lemma origin_entry:
  "zernike_one sp [(0, t)] 2 0 (Some False) =
     [fmul (fmul (fmul (binom sp 2 1) (Fin 0)) (hyp2f1 sp (- 1) (- 1) (- 2) PInf)) (Fin 1)]"
  by (simp add: zernike_one_def radial_zernike_def fpow_def)

lemma origin_entry_cases:
  "fmul (fmul (fmul B (Fin 0)) H) (Fin 1) = Fin 0 \<or> fmul (fmul (fmul B (Fin 0)) H) (Fin 1) = NaN"
  using fmul_zero_right_cases [of B] fmul_zero_cases [of H]
  by (auto simp: fmul_one_right fmul_NaN_left)

lemma normed_singleton: "z = Fin 0 \<or> z = NaN \<Longrightarrow> map (\<lambda>x. fdiv x (l2norm [z])) [z] = [NaN]"
  by (auto simp: l2norm_def signed_inf_def)

lemma zernike_defocus_index:
  assumes "length (gshape g) \<le> 2"
  shows "zernike sp g (Indices (IntArr [4])) nk =
           Inr (squeeze (np_array (gshape g) [zernike_one sp (gpoints g) 2 0 nk]))"
proof -
  have r: "noll_order ! 3 = (2, 0)"
    by code_simp
  show ?thesis
    using assms by (simp add: zernike_indices_valid r)
qed

section \<open>The claims about the evaluator\<close>

text \<open>
  C4.  Stability at the origin does not hold.  For the degrees (2, 0), Noll index 4, with
  normalization switched off, the value at a sample point of radius 0 is the product of
  0 and what the library returns for the infinite argument \<open>0 ** (-2)\<close>: it is 0 or NaN
  for every library, and never -1, the value of the radial polynomial \<open>2 r\<^sup>2 - 1\<close> at
  the origin.  The entry point returns this array for the Noll index 4.
\<close>

theorem origin_value:
  "zernike_one sp [(0, t)] 2 0 (Some False) =
     [fmul (fmul (fmul (binom sp 2 1) (Fin 0)) (hyp2f1 sp (- 1) (- 1) (- 2) PInf)) (Fin 1)]
   \<and> (zernike_one sp [(0, t)] 2 0 (Some False) = [Fin 0]
        \<or> zernike_one sp [(0, t)] 2 0 (Some False) = [NaN])
   \<and> zernike sp \<lparr>gshape = [1], gpoints = [(0, t)]\<rparr> (Indices (IntArr [4])) (Some False) =
        Inr ([], zernike_one sp [(0, t)] 2 0 (Some False))"
proof (intro conjI)
  show "zernike_one sp [(0, t)] 2 0 (Some False) =
     [fmul (fmul (fmul (binom sp 2 1) (Fin 0)) (hyp2f1 sp (- 1) (- 1) (- 2) PInf)) (Fin 1)]"
    by (rule origin_entry)
  show "zernike_one sp [(0, t)] 2 0 (Some False) = [Fin 0]
        \<or> zernike_one sp [(0, t)] 2 0 (Some False) = [NaN]"
    using origin_entry_cases [of "binom sp 2 1" "hyp2f1 sp (- 1) (- 1) (- 2) PInf"]
    by (auto simp: origin_entry)
  show "zernike sp \<lparr>gshape = [1], gpoints = [(0, t)]\<rparr> (Indices (IntArr [4])) (Some False) =
        Inr ([], zernike_one sp [(0, t)] 2 0 (Some False))"
    by (simp add: zernike_defocus_index squeeze_single)
qed

text \<open>
  C5.  The normalized result does not have Euclidean norm 1 on every grid that is not
  degenerate.  For the degrees (2, 0) with the default normalization, on the grid of the
  one point of radius 0 (where the polynomial is -1) the result is NaN for every library;
  on the grid of a point of radius 0 and a point of radius 1 every entry is NaN, unless
  the library returns a finite number for the infinite argument \<open>0 ** (-2)\<close>.
\<close>

theorem origin_normalized:
  "zernike_one sp [(0, t)] 2 0 None = [NaN]
   \<and> (zernike_one sp [(0, t), (1, u)] 2 0 None = [NaN, NaN]
        \<or> (\<exists>h. hyp2f1 sp (- 1) (- 1) (- 2) PInf = Fin h))"
proof
  have "zernike_one sp [(0, t)] 2 0 None =
          map (\<lambda>x. fdiv x (l2norm (zernike_one sp [(0, t)] 2 0 (Some False))))
              (zernike_one sp [(0, t)] 2 0 (Some False))"
    by (simp add: zernike_one_default zernike_one_normed)
  then show "zernike_one sp [(0, t)] 2 0 None = [NaN]"
    using origin_entry_cases [of "binom sp 2 1" "hyp2f1 sp (- 1) (- 1) (- 2) PInf"]
    by (simp only: origin_entry) (rule normed_singleton)
next
  define H where "H = hyp2f1 sp (- 1) (- 1) (- 2) PInf"
  define v where "v = fmul (fmul (fmul (binom sp 2 1) (Fin 1)) (hyp2f1 sp (- 1) (- 1) (- 2) (Fin 1))) (Fin 1)"
  have u: "zernike_one sp [(0, t), (1, u)] 2 0 (Some False) =
             [fmul (fmul (fmul (binom sp 2 1) (Fin 0)) H) (Fin 1), v]"
    by (simp add: zernike_one_def radial_zernike_def fpow_def H_def v_def)
  have n: "zernike_one sp [(0, t), (1, u)] 2 0 None =
          map (\<lambda>x. fdiv x (l2norm (zernike_one sp [(0, t), (1, u)] 2 0 (Some False))))
              (zernike_one sp [(0, t), (1, u)] 2 0 (Some False))"
    by (simp add: zernike_one_default zernike_one_normed)
  show "zernike_one sp [(0, t), (1, u)] 2 0 None = [NaN, NaN]
        \<or> (\<exists>h. hyp2f1 sp (- 1) (- 1) (- 2) PInf = Fin h)"
  proof (cases H)
    case (Fin h)
    then show ?thesis by (simp add: H_def)
  next
    case PInf
    have "fmul (fmul (fmul (binom sp 2 1) (Fin 0)) H) (Fin 1) = NaN"
      using fmul_zero_right_cases [of "binom sp 2 1"] by (auto simp: PInf signed_inf_def)
    then show ?thesis
      by (simp add: n u l2norm_def fmul_NaN_left)
  next
    case NInf
    have "fmul (fmul (fmul (binom sp 2 1) (Fin 0)) H) (Fin 1) = NaN"
      using fmul_zero_right_cases [of "binom sp 2 1"] by (auto simp: NInf signed_inf_def)
    then show ?thesis
      by (simp add: n u l2norm_def fmul_NaN_left)
  next
    case NaN
    have "fmul (fmul (fmul (binom sp 2 1) (Fin 0)) H) (Fin 1) = NaN"
      using fmul_zero_right_cases [of "binom sp 2 1"] by (auto simp: NaN)
    then show ?thesis
      by (simp add: n u l2norm_def fmul_NaN_left)
  qed
qed





text \<open>
  C9, as stated, fails for a sequence of one index: the entry point squeezes the leading
  axis away, and stacking the one result evaluated by itself keeps it.  On a grid of two
  points the batch output for the sequence \<open>[1]\<close> has shape \<open>(2,)\<close>, the stack of the
  single result has shape \<open>(1, 2)\<close>.
\<close>

theorem batch_single_counterexample:
  "zernike (const_scipy (Fin 1)) \<lparr>gshape = [2], gpoints = [(0, 0), (1 / 2, 0)]\<rparr>
      (Indices (IntArr [1])) (Some False) = Inr ([2], [Fin 1, Fin 1])
   \<and> one_by_one (const_scipy (Fin 1)) \<lparr>gshape = [2], gpoints = [(0, 0), (1 / 2, 0)]\<rparr>
      [1] (Some False) = Inr ([1, 2], [Fin 1, Fin 1])"
proof -
  have r: "noll_order ! 0 = (0, 0)"
    by code_simp
  have z: "zernike (const_scipy (Fin 1)) \<lparr>gshape = [2], gpoints = [(0, 0), (1 / 2, 0)]\<rparr>
      (Indices (IntArr [1])) (Some False) = Inr ([2], [Fin 1, Fin 1])"
    by (simp add: zernike_indices_valid r squeeze_single zernike_one_def radial_zernike_def)
  show ?thesis
    by (simp add: z one_by_one_def stack_def)
qed

text \<open>
  C9, amended: for every sample grid and every sequence of Noll indices between 1 and
  120 whose length is not 1 (for the empty sequence: on a grid of at most two
  dimensions), the output of the entry point on the sequence equals the stack, in order,
  of its outputs on each index by itself, and on a grid of at most two dimensions it is an
  array; for one index, the stack of the one result is the output of the entry point
  under one more leading axis of length 1.
\<close>

theorem batch_consistency:
  assumes ok: "\<forall>j\<in>set js. 1 \<le> sint j \<and> sint j \<le> 120"
  shows "(length js \<noteq> 1 \<and> (js = [] \<longrightarrow> length (gshape g) \<le> 2) \<longrightarrow>
            zernike sp g (Indices (IntArr js)) nk = one_by_one sp g js nk)
         \<and> (length (gshape g) \<le> 2 \<longrightarrow> (\<exists>a. zernike sp g (Indices (IntArr js)) nk = Inr a))
         \<and> (zernike sp g (Indices (IntArr [j])) nk = Inr a \<longrightarrow>
               one_by_one sp g [j] nk = Inr (1 # fst a, snd a))"
proof (intro conjI impI)
  define Z where "Z = (\<lambda>j :: int64. zernike_one sp (gpoints g)
                                (word_of_int (fst (noll_order ! nat (sint j - 1))))
                                (word_of_int (snd (noll_order ! nat (sint j - 1)))) nk)"
  define sq where "sq = filter (\<lambda>d. d \<noteq> 1) (gshape g)"
  have batch: "zernike sp g (Indices (IntArr js)) nk =
           (if 2 < length (gshape g) then Inl ValueError
            else Inr (squeeze (np_array (gshape g) (map Z js))))"
    unfolding Z_def by (rule zernike_indices_valid [OF ok])
  have one: "zernike sp g (Indices (IntArr [j])) nk =
           (if 2 < length (gshape g) then Inl ValueError else Inr (sq, Z j))"
    if "j \<in> set js" for j
    unfolding Z_def sq_def using zernike_indices_valid [of "[j]" sp g nk] ok that
    by (simp add: squeeze_single)
  have each: "map (\<lambda>j. zernike sp g (Indices (IntArr [j])) nk) js =
           (if 2 < length (gshape g) then map (\<lambda>j. Inl ValueError) js
            else map (\<lambda>j. Inr (sq, Z j)) js)"
    using one by simp
  {
    assume h: "length js \<noteq> 1 \<and> (js = [] \<longrightarrow> length (gshape g) \<le> 2)"
    show "zernike sp g (Indices (IntArr js)) nk = one_by_one sp g js nk"
    proof (cases "2 < length (gshape g)")
      case True
      then have "js \<noteq> []" using h by auto
      then show ?thesis
        using True by (simp add: batch one_by_one_def each collect_Inl)
    next
      case False
      show ?thesis
      proof (cases "js = []")
        case True
        then show ?thesis
          using False batch by (simp add: one_by_one_def squeeze_def np_array_def stack_def)
      next
        case ne: False
        then obtain j js' where js: "js = j # js'" by (cases js) auto
        have "length js \<noteq> 1" using h by simp
        then show ?thesis
          using False ne
          by (simp add: batch one_by_one_def each collect_Inr squeeze_def np_array_def
                stack_def sq_def hd_map o_def)
      qed
    qed
  }
  {
    assume "length (gshape g) \<le> 2"
    then show "\<exists>a. zernike sp g (Indices (IntArr js)) nk = Inr a"
      by (simp add: batch)
  }
  {
    assume "zernike sp g (Indices (IntArr [j])) nk = Inr a"
    then show "one_by_one sp g [j] nk = Inr (1 # fst a, snd a)"
      by (simp add: one_by_one_def stack_def)
  }
qed

theorem batch_consistency_witness:
  "zernike (const_scipy (Fin 1)) \<lparr>gshape = [2], gpoints = [(0, 0), (2, 0)]\<rparr>
      (Indices (IntArr [1, 1])) (Some False)
     = one_by_one (const_scipy (Fin 1)) \<lparr>gshape = [2], gpoints = [(0, 0), (2, 0)]\<rparr>
         [1, 1] (Some False)
   \<and> zernike (const_scipy (Fin 1)) \<lparr>gshape = [2], gpoints = [(0, 0), (2, 0)]\<rparr>
      (Indices (IntArr [1, 1])) (Some False) = Inr ([2, 2], [Fin 1, Fin 0, Fin 1, Fin 0])
   \<and> zernike (const_scipy (Fin 1)) \<lparr>gshape = [2], gpoints = [(0, 0), (2, 0)]\<rparr>
      (Indices (IntArr [1])) (Some False) = Inr ([2], [Fin 1, Fin 0])
   \<and> one_by_one (const_scipy (Fin 1)) \<lparr>gshape = [2], gpoints = [(0, 0), (2, 0)]\<rparr>
      [1] (Some False) = Inr ([1, 2], [Fin 1, Fin 0])"
proof -
  have r: "noll_order ! 0 = (0, 0)"
    by code_simp
  have z: "zernike (const_scipy (Fin 1)) \<lparr>gshape = [2], gpoints = [(0, 0), (2, 0)]\<rparr>
      (Indices (IntArr [1, 1])) (Some False) = Inr ([2, 2], [Fin 1, Fin 0, Fin 1, Fin 0])"
    by (simp add: zernike_indices_valid r squeeze_def np_array_def zernike_one_def radial_zernike_def)
  have z1: "zernike (const_scipy (Fin 1)) \<lparr>gshape = [2], gpoints = [(0, 0), (2, 0)]\<rparr>
      (Indices (IntArr [1])) (Some False) = Inr ([2], [Fin 1, Fin 0])"
    by (simp add: zernike_indices_valid r squeeze_single zernike_one_def radial_zernike_def)
  show ?thesis
    using batch_consistency [where js = "[1, 1]" and j = 1 and a = "([2], [Fin 1, Fin 0])"
        and g = "\<lparr>gshape = [2], gpoints = [(0, 0), (2, 0)]\<rparr>"
        and sp = "const_scipy (Fin 1)" and nk = "Some False"]
    by (simp add: z z1)
qed

text \<open>
  C10.  The piston: for the degree pair (0, 0) with normalization switched off, the
  value at every sample point of radius at most 1 is 1, from \<open>_zernike\<close> and from the
  entry point alike.
\<close>

theorem piston:
  assumes i: "i < length (gpoints g)" and r: "fst (gpoints g ! i) \<le> 1"
  shows "zernike_one sp (gpoints g) 0 0 (Some False) ! i = Fin 1
         \<and> (length (gshape g) \<le> 2 \<longrightarrow>
              (\<exists>sh zs. zernike sp g (Degrees [0] [0]) (Some False) = Inr (sh, zs) \<and> zs ! i = Fin 1))"
proof -
  have "zernike_one sp (gpoints g) 0 0 (Some False) ! i = Fin 1"
    using i r by (simp add: zernike_one_def radial_zernike_def Let_def)
  then show ?thesis
    by (simp add: zernike_degrees_single)
qed

theorem piston_witness:
  "fst ([(1 / 2, 3), (2 :: real, 0 :: real)] ! 0) \<le> 1
   \<and> zernike_one (const_scipy NaN) [(1 / 2, 3), (2, 0)] 0 0 (Some False) ! 0 = Fin 1
   \<and> (\<exists>sh zs. zernike (const_scipy NaN) \<lparr>gshape = [2], gpoints = [(1 / 2, 3), (2, 0)]\<rparr>
                   (Degrees [0] [0]) (Some False) = Inr (sh, zs) \<and> zs ! 0 = Fin 1)"
  using piston [of 0 "\<lparr>gshape = [2], gpoints = [(1 / 2, 3), (2, 0)]\<rparr>" "const_scipy NaN"]
  by simp

end
